theory Spec2Isabelle
  imports Complex_Main
begin

section \<open>Python values\<close>

text \<open>
  The PassBi client (\<^verbatim>\<open>sdks/python/passbi_client.py\<close>) passes untyped Python values
  around: query parameters, request bodies, the parsed JSON body of a response, and the
  attributes of \<^verbatim>\<open>PassBiError\<close>. They are modelled by one datatype of the values that
  \<^verbatim>\<open>json\<close> can produce. A \<^verbatim>\<open>str\<close> is the list of its characters (code points up to
  U+00FF, which is what header text decoded as latin-1 contains); a \<^verbatim>\<open>dict\<close> is the list
  of its items in insertion order, with distinct keys.
\<close>

datatype pyfloat = Finite rat | PosInf | NegInf | NaN

datatype pyval =
    PNone
  | PBool bool
  | PInt int
  | PFloat pyfloat
  | PStr string
  | PList "pyval list"
  | PDict "(string \<times> pyval) list"

text \<open>Truth value testing, as \<^verbatim>\<open>if x\<close>, \<^verbatim>\<open>not x\<close> and \<^verbatim>\<open>x or y\<close> use it.\<close>

fun truthy :: "pyval \<Rightarrow> bool" where
  "truthy PNone = False"
| "truthy (PBool b) = b"
| "truthy (PInt i) = (i \<noteq> 0)"
| "truthy (PFloat (Finite q)) = (q \<noteq> 0)"
| "truthy (PFloat _) = True"
| "truthy (PStr s) = (s \<noteq> [])"
| "truthy (PList xs) = (xs \<noteq> [])"
| "truthy (PDict d) = (d \<noteq> [])"

text \<open>\<^verbatim>\<open>a or b\<close>: the value of \<^verbatim>\<open>a\<close> when it is true, else the value of \<^verbatim>\<open>b\<close>.\<close>

definition py_or :: "pyval \<Rightarrow> pyval \<Rightarrow> pyval" where
  "py_or a b = (if truthy a then a else b)"

text \<open>\<^verbatim>\<open>d.get(k)\<close> on a dict: the value stored under the key, else \<^verbatim>\<open>None\<close>.\<close>

definition dict_get :: "(string \<times> pyval) list \<Rightarrow> string \<Rightarrow> pyval" where
  "dict_get d k = (case map_of d k of None \<Rightarrow> PNone | Some v \<Rightarrow> v)"

text \<open>\<^verbatim>\<open>d[k] = v\<close>: overwrite in place when the key exists, else append.\<close>

fun dict_set :: "(string \<times> 'v) list \<Rightarrow> string \<Rightarrow> 'v \<Rightarrow> (string \<times> 'v) list" where
  "dict_set [] k v = [(k, v)]"
| "dict_set ((k', v') # d) k v = (if k' = k then (k, v) # d else (k', v') # dict_set d k v)"

text \<open>The value of an optional argument: the default when the caller omits it.\<close>

definition dflt :: "'a \<Rightarrow> 'a option \<Rightarrow> 'a" where
  "dflt d x = (case x of None \<Rightarrow> d | Some v \<Rightarrow> v)"

section \<open>Strings: \<^verbatim>\<open>rstrip\<close>, \<^verbatim>\<open>startswith\<close>, \<^verbatim>\<open>lower\<close>, \<^verbatim>\<open>int\<close>\<close>

definition rstrip :: "char \<Rightarrow> string \<Rightarrow> string" where
  "rstrip ch s = rev (dropWhile (\<lambda>c. c = ch) (rev s))"

definition startswith :: "string \<Rightarrow> string \<Rightarrow> bool" where
  "startswith s p = (take (length p) s = p)"

text \<open>\<^verbatim>\<open>str.lower\<close> on one character below U+0100: A-Z, and the latin-1 capitals but the
  multiplication sign.\<close>

definition py_lower_char :: "char \<Rightarrow> char" where
  "py_lower_char c =
     (let n = (of_char c :: nat)
      in if (65 \<le> n \<and> n \<le> 90) \<or> (192 \<le> n \<and> n \<le> 222 \<and> n \<noteq> 215)
         then char_of (n + 32) else c)"

definition lower :: "string \<Rightarrow> string" where
  "lower s = map py_lower_char s"

text \<open>
  \<^verbatim>\<open>int(s)\<close> on a \<^verbatim>\<open>str\<close> (CPython): white space around, at most one sign, then decimal
  digits which single underscores may separate; a text with more than 4300 digits is
  refused (the interpreter's default limit). \<^verbatim>\<open>None\<close> stands for the \<^verbatim>\<open>ValueError\<close>.
  The white space is tab, line feed, vertical tab, form feed, carriage return and space,
  and beyond ASCII U+0085 and U+00A0.
\<close>

definition py_isspace :: "char \<Rightarrow> bool" where
  "py_isspace c = ((of_char c :: nat) \<in> set [9, 10, 11, 12, 13, 32, 133, 160])"

definition is_digit :: "char \<Rightarrow> bool" where
  "is_digit c = (48 \<le> (of_char c :: nat) \<and> (of_char c :: nat) \<le> 57)"

definition digit_val :: "char \<Rightarrow> int" where
  "digit_val c = int (of_char c) - 48"

definition int_max_str_digits :: nat where
  "int_max_str_digits = 4300"

text \<open>The scan over digits and underscores: the previous character, the text left, the
  number of digits seen and the value so far.\<close>

fun scan_digits :: "char \<Rightarrow> string \<Rightarrow> nat \<Rightarrow> int \<Rightarrow> (nat \<times> int) option" where
  "scan_digits prev [] n acc = (if prev = CHR ''_'' then None else Some (n, acc))"
| "scan_digits prev (c # cs) n acc =
     (if c = CHR ''_'' then (if prev = CHR ''_'' then None else scan_digits c cs n acc)
      else if is_digit c then scan_digits c cs (Suc n) (acc * 10 + digit_val c)
      else None)"

definition py_int_str :: "string \<Rightarrow> int option" where
  "py_int_str s =
     (let s1 = dropWhile py_isspace s;
          neg = (take 1 s1 = ''-'');
          s2 = (if take 1 s1 = ''+'' \<or> take 1 s1 = ''-'' then drop 1 s1 else s1);
          s3 = rev (dropWhile py_isspace (rev s2))
      in if s3 = [] \<or> take 1 s3 = ''_'' then None
         else (case scan_digits (CHR ''0'') s3 0 0 of
                 None \<Rightarrow> None
               | Some (n, v) \<Rightarrow>
                   if int_max_str_digits < n then None
                   else Some (if neg then - v else v)))"

section \<open>Exceptions\<close>

text \<open>\<^verbatim>\<open>class PassBiError(Exception)\<close>: its four attributes. The message and the error
  code come from the response body, so they are Python values.\<close>

record PassBiError =
  message :: pyval
  status_code :: int
  error_code :: pyval
  details :: pyval

text \<open>\<^verbatim>\<open>PassBiError(message, status_code=0, error_code=None, details=None)\<close>\<close>

definition mk_PassBiError :: "pyval \<Rightarrow> int option \<Rightarrow> pyval option \<Rightarrow> pyval option \<Rightarrow> PassBiError" where
  "mk_PassBiError m sc ec ds =
     \<lparr>message = m, status_code = dflt 0 sc, error_code = dflt PNone ec, details = dflt PNone ds\<rparr>"

text \<open>\<^verbatim>\<open>self.error_code in [...]\<close>: equality with one of three \<^verbatim>\<open>str\<close> literals.\<close>

definition is_rate_limit_error :: "PassBiError \<Rightarrow> bool" where
  "is_rate_limit_error e =
     (error_code e \<in> set [PStr ''rate_limit_exceeded'', PStr ''daily_quota_exceeded'',
                           PStr ''monthly_quota_exceeded''])"

definition is_auth_error :: "PassBiError \<Rightarrow> bool" where
  "is_auth_error e = (status_code e \<in> set [401, 403])"

text \<open>
  What a call can raise: the \<^verbatim>\<open>ValueError\<close> of a \<^verbatim>\<open>raise\<close> statement with its message;
  the \<^verbatim>\<open>ValueError\<close> of \<^verbatim>\<open>int()\<close> with the text it refused; the \<^verbatim>\<open>AttributeError\<close> of
  \<^verbatim>\<open>.get\<close> on a value that is no dict; the decode error of \<^verbatim>\<open>response.json()\<close> with its
  text, where it escapes the handlers; and \<^verbatim>\<open>PassBiError\<close>.
\<close>

datatype exn =
    ValueError string
  | IntValueError string
  | AttributeError
  | JSONDecodeError string
  | ApiError PassBiError

section \<open>The HTTP library\<close>

text \<open>
  \<^verbatim>\<open>requests\<close> is not part of the repository. A request is the tuple of arguments the
  client gives to \<^verbatim>\<open>session.request\<close>. A call either raises \<^verbatim>\<open>requests.exceptions.Timeout\<close>
  (or a subclass), or raises another \<^verbatim>\<open>RequestException\<close>, each with the text \<^verbatim>\<open>str(e)\<close>,
  or returns a response. Of a response the client reads the status code, the headers and
  \<^verbatim>\<open>response.json()\<close>, which returns the parsed body or raises a decode error.
\<close>

record http_request =
  req_method :: string
  req_url :: string
  req_params :: pyval
  req_json :: pyval
  req_timeout :: int

datatype body = Json pyval | NotJson string

record http_response =
  resp_status_code :: int
  resp_headers :: "(string \<times> string) list"
  resp_body :: body

datatype transport_error = Timeout string | RequestException string

text \<open>\<^verbatim>\<open>response.ok\<close>: false exactly for the statuses \<^verbatim>\<open>raise_for_status\<close> raises on.\<close>

definition ok :: "http_response \<Rightarrow> bool" where
  "ok r = (\<not> (400 \<le> resp_status_code r \<and> resp_status_code r < 600))"

text \<open>\<^verbatim>\<open>CaseInsensitiveDict.get(name)\<close> over the items of the headers: names compare
  in lower case. \<^verbatim>\<open>None\<close> when no header has the name.\<close>

fun headers_get :: "(string \<times> string) list \<Rightarrow> string \<Rightarrow> string option" where
  "headers_get [] name = None"
| "headers_get ((k, v) # hs) name =
     (if lower k = lower name then Some v else headers_get hs name)"

section \<open>The client and its environment\<close>

text \<open>
  The attributes of a \<^verbatim>\<open>PassBiClient\<close>. \<^verbatim>\<open>rate_limit_info\<close> holds a reference to a dict
  object: \<^verbatim>\<open>get_rate_limit_info\<close> hands the same object to the caller, so the dicts live
  in a store, addressed by their position. The session is represented by the headers
  the constructor sets on it.
\<close>

type_synonym ref = nat

type_synonym rate_limit_dict = "(string \<times> int) list"

record client =
  api_key :: string
  base_url :: string
  timeout :: int
  debug :: bool
  rate_limit_info :: ref
  session_headers :: "(string \<times> string) list"

text \<open>
  The environment: the store of dict objects, the requests given to \<^verbatim>\<open>session.request\<close>
  so far (oldest first), the behaviour of the network (what a request yields, given the
  requests before it), and whether the installed \<^verbatim>\<open>requests\<close> raises decode errors that
  are \<^verbatim>\<open>RequestException\<close>s (it does from version 2.27; before, they were plain
  \<^verbatim>\<open>ValueError\<close>s).
\<close>

record world =
  heap :: "rate_limit_dict list"
  sent :: "http_request list"
  transport :: "http_request list \<Rightarrow> http_request \<Rightarrow> transport_error + http_response"
  decode_error_is_request_exception :: bool

definition alloc :: "world \<Rightarrow> rate_limit_dict \<Rightarrow> ref \<times> world" where
  "alloc w d = (length (heap w), w\<lparr>heap := heap w @ [d]\<rparr>)"

definition deref :: "world \<Rightarrow> ref \<Rightarrow> rate_limit_dict option" where
  "deref w a = (if a < length (heap w) then Some (heap w ! a) else None)"

text \<open>\<^verbatim>\<open>self.session.request(...)\<close>: one request goes out and its outcome comes back.\<close>

definition session_request :: "world \<Rightarrow> http_request \<Rightarrow> (transport_error + http_response) \<times> world" where
  "session_request w req = (transport w (sent w) req, w\<lparr>sent := sent w @ [req]\<rparr>)"

section \<open>\<^verbatim>\<open>PassBiClient\<close>\<close>

text \<open>\<^verbatim>\<open>__init__(api_key, base_url='https://api.passbi.com', timeout=30, debug=False)\<close>\<close>

definition init :: "world \<Rightarrow> string \<Rightarrow> string option \<Rightarrow> int option \<Rightarrow> bool option
    \<Rightarrow> (exn + client) \<times> world" where
  "init w key url tmo dbg =
     (if key = [] then (Inl (ValueError ''API key is required''), w)
      else if \<not> startswith key ''pk_'' then
        (Inl (ValueError (''Invalid API key format. API key must start with ''
                          @ [CHR 0x22] @ ''pk_'' @ [CHR 0x22])), w)
      else
        (let (a, w') = alloc w []
         in (Inr \<lparr>api_key = key,
                  base_url = rstrip (CHR ''/'') (dflt ''https://api.passbi.com'' url),
                  timeout = dflt 30 tmo,
                  debug = dflt False dbg,
                  rate_limit_info = a,
                  session_headers =
                    [(''Authorization'', ''Bearer '' @ key),
                     (''Content-Type'', ''application/json''),
                     (''User-Agent'', ''PassBi-Python-SDK/2.0.0'')]\<rparr>, w')))"

text \<open>\<^verbatim>\<open>int(headers.get(name, 0))\<close>: 0 for a missing header, else \<^verbatim>\<open>int\<close> of its text.\<close>

definition header_int :: "(string \<times> string) list \<Rightarrow> string \<Rightarrow> exn + int" where
  "header_int headers name =
     (case headers_get headers name of
        None \<Rightarrow> Inr 0
      | Some v \<Rightarrow> (case py_int_str v of None \<Rightarrow> Inl (IntValueError v) | Some n \<Rightarrow> Inr n))"

text \<open>
  \<^verbatim>\<open>_extract_rate_limit_info(headers)\<close>: the six entries of the dict display are evaluated
  in order; the first \<^verbatim>\<open>int()\<close> that raises ends the call before the assignment. Otherwise
  a new dict is built and \<^verbatim>\<open>self.rate_limit_info\<close> is bound to it.
\<close>

definition extract_rate_limit_info :: "client \<Rightarrow> world \<Rightarrow> (string \<times> string) list
    \<Rightarrow> (exn + unit) \<times> client \<times> world" where
  "extract_rate_limit_info c w headers =
     (case header_int headers ''X-RateLimit-Limit-Second'' of Inl e \<Rightarrow> (Inl e, c, w) | Inr ls \<Rightarrow>
      case header_int headers ''X-RateLimit-Remaining-Second'' of Inl e \<Rightarrow> (Inl e, c, w) | Inr rs \<Rightarrow>
      case header_int headers ''X-RateLimit-Limit-Day'' of Inl e \<Rightarrow> (Inl e, c, w) | Inr ld \<Rightarrow>
      case header_int headers ''X-RateLimit-Remaining-Day'' of Inl e \<Rightarrow> (Inl e, c, w) | Inr rd \<Rightarrow>
      case header_int headers ''X-RateLimit-Limit-Month'' of Inl e \<Rightarrow> (Inl e, c, w) | Inr lm \<Rightarrow>
      case header_int headers ''X-RateLimit-Remaining-Month'' of Inl e \<Rightarrow> (Inl e, c, w) | Inr rm \<Rightarrow>
        (let (a, w') = alloc w [(''limit_second'', ls), (''remaining_second'', rs),
                                (''limit_day'', ld), (''remaining_day'', rd),
                                (''limit_month'', lm), (''remaining_month'', rm)]
         in (Inr (), c\<lparr>rate_limit_info := a\<rparr>, w')))"

text \<open>\<^verbatim>\<open>get_rate_limit_info()\<close> returns the dict object itself, not a copy.\<close>

definition get_rate_limit_info :: "client \<Rightarrow> ref" where
  "get_rate_limit_info c = rate_limit_info c"

text \<open>
  \<^verbatim>\<open>_request(method, endpoint, params=None, json=None)\<close>. The debug prints write to
  standard output only and are left out. Of what the \<^verbatim>\<open>try\<close> block can raise, the two
  handlers catch the transport errors, and the decode error of \<^verbatim>\<open>response.json()\<close> where
  the library makes it a \<^verbatim>\<open>RequestException\<close>; the \<^verbatim>\<open>ValueError\<close> of \<^verbatim>\<open>int()\<close>, the
  \<^verbatim>\<open>AttributeError\<close> of \<^verbatim>\<open>data.get\<close> and the \<^verbatim>\<open>PassBiError\<close> pass through them.
\<close>

definition request :: "client \<Rightarrow> world \<Rightarrow> string \<Rightarrow> string \<Rightarrow> pyval option \<Rightarrow> pyval option
    \<Rightarrow> (exn + pyval) \<times> client \<times> world" where
  "request c w method endpoint params json =
     (let url = base_url c @ endpoint;
          (outcome, w1) = session_request w
             \<lparr>req_method = method, req_url = url, req_params = dflt PNone params,
              req_json = dflt PNone json, req_timeout = timeout c\<rparr>
      in case outcome of
           Inl (Timeout txt) \<Rightarrow>
             (Inl (ApiError (mk_PassBiError (PStr ''Request timeout'') (Some 408)
                               (Some (PStr ''timeout'')) None)), c, w1)
         | Inl (RequestException txt) \<Rightarrow>
             (Inl (ApiError (mk_PassBiError (PStr (''Request failed: '' @ txt)) (Some 0)
                               (Some (PStr ''request_failed'')) None)), c, w1)
         | Inr response \<Rightarrow>
             (case extract_rate_limit_info c w1 (resp_headers response) of
                (Inl e, c2, w2) \<Rightarrow> (Inl e, c2, w2)
              | (Inr u, c2, w2) \<Rightarrow>
                  (case resp_body response of
                     NotJson txt \<Rightarrow>
                       (if decode_error_is_request_exception w2
                        then (Inl (ApiError (mk_PassBiError (PStr (''Request failed: '' @ txt))
                                               (Some 0) (Some (PStr ''request_failed'')) None)), c2, w2)
                        else (Inl (JSONDecodeError txt), c2, w2))
                   | Json data \<Rightarrow>
                       (if \<not> ok response then
                          (case data of
                             PDict d \<Rightarrow>
                               (Inl (ApiError (mk_PassBiError
                                       (py_or (py_or (dict_get d ''message'') (dict_get d ''error''))
                                              (PStr ''API request failed''))
                                       (Some (resp_status_code response))
                                       (Some (dict_get d ''error''))
                                       (Some data))), c2, w2)
                           | _ \<Rightarrow> (Inl AttributeError, c2, w2))
                        else (Inr data, c2, w2)))))"

section \<open>The public operations\<close>

text \<open>\<^verbatim>\<open>search_routes(from_coords, to_coords)\<close>\<close>

definition search_routes :: "client \<Rightarrow> world \<Rightarrow> string \<Rightarrow> string \<Rightarrow> (exn + pyval) \<times> client \<times> world" where
  "search_routes c w from_coords to_coords =
     (if from_coords = [] \<or> to_coords = [] then
        (Inl (ValueError ''Both from_coords and to_coords are required''), c, w)
      else request c w ''GET'' ''/v2/route-search''
             (Some (PDict [(''from'', PStr from_coords), (''to'', PStr to_coords)])) None)"

text \<open>\<^verbatim>\<open>find_nearby_stops(lat, lon, radius=500)\<close>: the coordinates are tested with
  \<^verbatim>\<open>is None\<close> only.\<close>

definition find_nearby_stops :: "client \<Rightarrow> world \<Rightarrow> pyval \<Rightarrow> pyval \<Rightarrow> int option
    \<Rightarrow> (exn + pyval) \<times> client \<times> world" where
  "find_nearby_stops c w lat lon radius =
     (if lat = PNone \<or> lon = PNone then
        (Inl (ValueError ''Both lat and lon are required''), c, w)
      else request c w ''GET'' ''/v2/stops/nearby''
             (Some (PDict [(''lat'', lat), (''lon'', lon), (''radius'', PInt (dflt 500 radius))])) None)"

text \<open>\<^verbatim>\<open>list_routes(mode=None, agency=None, limit=100)\<close>\<close>

definition list_routes :: "client \<Rightarrow> world \<Rightarrow> pyval option \<Rightarrow> pyval option \<Rightarrow> int option
    \<Rightarrow> (exn + pyval) \<times> client \<times> world" where
  "list_routes c w mode agency limit =
     (let params = [(''limit'', PInt (dflt 100 limit))];
          params = (if truthy (dflt PNone mode) then dict_set params ''mode'' (dflt PNone mode)
                    else params);
          params = (if truthy (dflt PNone agency) then dict_set params ''agency'' (dflt PNone agency)
                    else params)
      in request c w ''GET'' ''/v2/routes/list'' (Some (PDict params)) None)"

text \<open>A \<^verbatim>\<open>datetime\<close>, given by the text \<^verbatim>\<open>isoformat()\<close> returns for it. Every \<^verbatim>\<open>datetime\<close>
  is true.\<close>

datatype datetime = Datetime (isoformat: string)

text \<open>\<^verbatim>\<open>create_api_key(name, description='', scopes=None, expires_at=None)\<close>\<close>

definition create_api_key :: "client \<Rightarrow> world \<Rightarrow> string \<Rightarrow> string option \<Rightarrow> string list option
    \<Rightarrow> datetime option \<Rightarrow> (exn + pyval) \<times> client \<times> world" where
  "create_api_key c w name description scopes expires_at =
     (if name = [] then (Inl (ValueError ''API key name is required''), c, w)
      else
        (let scopes = (case scopes of None \<Rightarrow> [''read:routes''] | Some ss \<Rightarrow> ss);
             body = [(''name'', PStr name),
                     (''description'', PStr (dflt [] description)),
                     (''scopes'', PList (map PStr scopes))];
             body = (case expires_at of
                       None \<Rightarrow> body
                     | Some d \<Rightarrow> dict_set body ''expires_at'' (PStr (isoformat d)))
         in request c w ''POST'' ''/dashboard/api-keys'' None (Some (PDict body))))"

text \<open>\<^verbatim>\<open>revoke_api_key(key_id)\<close>\<close>

definition revoke_api_key :: "client \<Rightarrow> world \<Rightarrow> string \<Rightarrow> (exn + pyval) \<times> client \<times> world" where
  "revoke_api_key c w key_id =
     (if key_id = [] then (Inl (ValueError ''API key ID is required''), c, w)
      else request c w ''DELETE'' (''/dashboard/api-keys/'' @ key_id) None None)"

section \<open>Notions used to state the properties\<close>

text \<open>The Python classes of the exceptions: the \<^verbatim>\<open>ValueError\<close>s (the decode error is a
  subclass of it) and \<^verbatim>\<open>PassBiError\<close>.\<close>

fun is_ValueError :: "exn \<Rightarrow> bool" where
  "is_ValueError (ValueError m) = True"
| "is_ValueError (IntValueError v) = True"
| "is_ValueError (JSONDecodeError t) = True"
| "is_ValueError AttributeError = False"
| "is_ValueError (ApiError e) = False"

fun is_ApiError :: "exn \<Rightarrow> bool" where
  "is_ApiError (ApiError e) = True"
| "is_ApiError e = False"

text \<open>A rate-limit header is in order when it is absent or \<^verbatim>\<open>int()\<close> accepts its text.\<close>

definition numeric_or_absent :: "(string \<times> string) list \<Rightarrow> string \<Rightarrow> bool" where
  "numeric_or_absent headers name =
     (case headers_get headers name of None \<Rightarrow> True | Some v \<Rightarrow> py_int_str v \<noteq> None)"

definition rate_limit_headers_numeric :: "(string \<times> string) list \<Rightarrow> bool" where
  "rate_limit_headers_numeric headers =
     (numeric_or_absent headers ''X-RateLimit-Limit-Second'' \<and>
      numeric_or_absent headers ''X-RateLimit-Remaining-Second'' \<and>
      numeric_or_absent headers ''X-RateLimit-Limit-Day'' \<and>
      numeric_or_absent headers ''X-RateLimit-Remaining-Day'' \<and>
      numeric_or_absent headers ''X-RateLimit-Limit-Month'' \<and>
      numeric_or_absent headers ''X-RateLimit-Remaining-Month'')"

text \<open>
  The tracker as the specification describes it: each field is the integer value of
  its header when the header is present, and 0 when it is absent or not numeric.
\<close>

definition spec_field :: "(string \<times> string) list \<Rightarrow> string \<Rightarrow> int" where
  "spec_field headers name =
     (case headers_get headers name of
        None \<Rightarrow> 0
      | Some v \<Rightarrow> (case py_int_str v of None \<Rightarrow> 0 | Some n \<Rightarrow> n))"

definition spec_rate_limit_info :: "(string \<times> string) list \<Rightarrow> rate_limit_dict" where
  "spec_rate_limit_info headers =
     [(''limit_second'', spec_field headers ''X-RateLimit-Limit-Second''),
      (''remaining_second'', spec_field headers ''X-RateLimit-Remaining-Second''),
      (''limit_day'', spec_field headers ''X-RateLimit-Limit-Day''),
      (''remaining_day'', spec_field headers ''X-RateLimit-Remaining-Day''),
      (''limit_month'', spec_field headers ''X-RateLimit-Limit-Month''),
      (''remaining_month'', spec_field headers ''X-RateLimit-Remaining-Month'')]"

text \<open>The all-zero record.\<close>

definition zero_rate_limit_info :: rate_limit_dict where
  "zero_rate_limit_info =
     [(''limit_second'', 0), (''remaining_second'', 0), (''limit_day'', 0),
      (''remaining_day'', 0), (''limit_month'', 0), (''remaining_month'', 0)]"

text \<open>The request \<^verbatim>\<open>_request\<close> hands to the session.\<close>

definition request_of :: "client \<Rightarrow> string \<Rightarrow> string \<Rightarrow> pyval option \<Rightarrow> pyval option \<Rightarrow> http_request" where
  "request_of c method endpoint params json =
     \<lparr>req_method = method, req_url = base_url c @ endpoint, req_params = dflt PNone params,
      req_json = dflt PNone json, req_timeout = timeout c\<rparr>"

subsection \<open>A mock server\<close>

text \<open>A network that answers every request with the same outcome, the world right after
  \<^verbatim>\<open>PassBiClient('pk_live_abc123')\<close> was constructed in an empty one with this network,
  and that client.\<close>

definition mock_server :: "transport_error + http_response \<Rightarrow> http_request list \<Rightarrow> http_request
    \<Rightarrow> transport_error + http_response" where
  "mock_server out hist req = out"

definition mock_world :: "transport_error + http_response \<Rightarrow> world" where
  "mock_world out =
     \<lparr>heap = [[]], sent = [], transport = mock_server out, decode_error_is_request_exception = True\<rparr>"

definition mock_client :: client where
  "mock_client =
     \<lparr>api_key = ''pk_live_abc123'', base_url = ''https://api.passbi.com'', timeout = 30,
      debug = False, rate_limit_info = 0,
      session_headers = [(''Authorization'', ''Bearer pk_live_abc123''),
                         (''Content-Type'', ''application/json''),
                         (''User-Agent'', ''PassBi-Python-SDK/2.0.0'')]\<rparr>"

definition mock_response :: "int \<Rightarrow> (string \<times> string) list \<Rightarrow> body \<Rightarrow> transport_error + http_response" where
  "mock_response status headers b =
     Inr \<lparr>resp_status_code = status, resp_headers = headers, resp_body = b\<rparr>"

section \<open>Auxiliary facts\<close>

subsection \<open>Reading the rate-limit headers\<close>

lemma header_int_numeric:
  "numeric_or_absent headers name \<Longrightarrow> header_int headers name = Inr (spec_field headers name)"
  by (auto simp: numeric_or_absent_def header_int_def spec_field_def split: option.splits)

lemma header_int_not_numeric:
  "\<not> numeric_or_absent headers name \<Longrightarrow>
     \<exists>v. headers_get headers name = Some v \<and> py_int_str v = None
       \<and> header_int headers name = Inl (IntValueError v)"
  by (auto simp: numeric_or_absent_def header_int_def split: option.splits)

lemma extract_numeric:
  "rate_limit_headers_numeric headers \<Longrightarrow>
     extract_rate_limit_info c w headers =
       (Inr (), c\<lparr>rate_limit_info := length (heap w)\<rparr>,
        w\<lparr>heap := heap w @ [spec_rate_limit_info headers]\<rparr>)"
  by (simp add: rate_limit_headers_numeric_def extract_rate_limit_info_def header_int_numeric
        alloc_def spec_rate_limit_info_def)

lemma extract_not_numeric:
  assumes "\<not> rate_limit_headers_numeric headers"
  shows "\<exists>v. extract_rate_limit_info c w headers = (Inl (IntValueError v), c, w)"
proof -
  have cases: "\<And>name. (\<exists>v. header_int headers name = Inl (IntValueError v))
                  \<or> (numeric_or_absent headers name \<and> (\<exists>n. header_int headers name = Inr n))"
    using header_int_numeric header_int_not_numeric by blast
  show ?thesis
    using assms cases [of "''X-RateLimit-Limit-Second''"] cases [of "''X-RateLimit-Remaining-Second''"]
      cases [of "''X-RateLimit-Limit-Day''"] cases [of "''X-RateLimit-Remaining-Day''"]
      cases [of "''X-RateLimit-Limit-Month''"] cases [of "''X-RateLimit-Remaining-Month''"]
    unfolding rate_limit_headers_numeric_def extract_rate_limit_info_def
    by (elim disjE exE conjE) simp_all
qed

subsection \<open>The outcomes of \<^verbatim>\<open>_request\<close>\<close>

lemma request_timeout:
  "transport w (sent w) (request_of c meth endpoint params json) = Inl (Timeout txt) \<Longrightarrow>
   request c w meth endpoint params json =
     (Inl (ApiError \<lparr>message = PStr ''Request timeout'', status_code = 408,
                     error_code = PStr ''timeout'', details = PNone\<rparr>),
      c, w\<lparr>sent := sent w @ [request_of c meth endpoint params json]\<rparr>)"
  by (simp add: request_def request_of_def session_request_def mk_PassBiError_def dflt_def)

lemma request_transport_failure:
  "transport w (sent w) (request_of c meth endpoint params json) = Inl (RequestException txt) \<Longrightarrow>
   request c w meth endpoint params json =
     (Inl (ApiError \<lparr>message = PStr (''Request failed: '' @ txt), status_code = 0,
                     error_code = PStr ''request_failed'', details = PNone\<rparr>),
      c, w\<lparr>sent := sent w @ [request_of c meth endpoint params json]\<rparr>)"
  by (simp add: request_def request_of_def session_request_def mk_PassBiError_def dflt_def)


lemma request_state:
  assumes "transport w (sent w) (request_of c meth endpoint params json) = Inr response"
    and "rate_limit_headers_numeric (resp_headers response)"
  shows "snd (request c w meth endpoint params json) =
     (c\<lparr>rate_limit_info := length (heap w)\<rparr>,
      w\<lparr>sent := sent w @ [request_of c meth endpoint params json],
        heap := heap w @ [spec_rate_limit_info (resp_headers response)]\<rparr>)"
  using assms
  by (simp add: request_def request_of_def session_request_def extract_numeric Let_def
        split: body.splits pyval.splits)

lemma request_ok:
  assumes "transport w (sent w) (request_of c meth endpoint params json) = Inr response"
    and "rate_limit_headers_numeric (resp_headers response)"
    and "ok response" and "resp_body response = Json data"
  shows "fst (request c w meth endpoint params json) = Inr data"
  using assms
  by (simp add: request_def request_of_def session_request_def extract_numeric)

lemma request_not_ok:
  assumes "transport w (sent w) (request_of c meth endpoint params json) = Inr response"
    and "rate_limit_headers_numeric (resp_headers response)"
    and "\<not> ok response" and "resp_body response = Json (PDict d)"
  shows "fst (request c w meth endpoint params json) =
     Inl (ApiError \<lparr>message = py_or (py_or (dict_get d ''message'') (dict_get d ''error''))
                                    (PStr ''API request failed''),
                     status_code = resp_status_code response,
                     error_code = dict_get d ''error'', details = PDict d\<rparr>)"
  using assms
  by (simp add: request_def request_of_def session_request_def extract_numeric
        mk_PassBiError_def dflt_def)

lemma request_response_not_numeric:
  assumes "transport w (sent w) (request_of c meth endpoint params json) = Inr response"
    and "\<not> rate_limit_headers_numeric (resp_headers response)"
  shows "\<exists>v. request c w meth endpoint params json =
     (Inl (IntValueError v), c, w\<lparr>sent := sent w @ [request_of c meth endpoint params json]\<rparr>)"
proof -
  obtain v where "extract_rate_limit_info c (w\<lparr>sent := sent w @ [request_of c meth endpoint params json]\<rparr>)
      (resp_headers response) = (Inl (IntValueError v), c, w\<lparr>sent := sent w @ [request_of c meth endpoint params json]\<rparr>)"
    using extract_not_numeric [OF assms(2)] by blast
  then show ?thesis using assms(1)
    by (simp add: request_def request_of_def session_request_def)
qed

lemma request_world:
  "\<exists>ds. snd (snd (request c w meth endpoint params json)) =
     w\<lparr>sent := sent w @ [request_of c meth endpoint params json], heap := heap w @ ds\<rparr>"
proof (cases "transport w (sent w) (request_of c meth endpoint params json)")
  case (Inl e)
  have "snd (snd (request c w meth endpoint params json)) =
     w\<lparr>sent := sent w @ [request_of c meth endpoint params json], heap := heap w @ []\<rparr>"
    using Inl request_timeout request_transport_failure by (cases e) simp_all
  then show ?thesis by blast
next
  case (Inr response)
  show ?thesis
  proof (cases "rate_limit_headers_numeric (resp_headers response)")
    case True
    then have "snd (snd (request c w meth endpoint params json)) =
       w\<lparr>sent := sent w @ [request_of c meth endpoint params json],
         heap := heap w @ [spec_rate_limit_info (resp_headers response)]\<rparr>"
      using request_state [OF Inr] by simp
    then show ?thesis by blast
  next
    case False
    then obtain v where "request c w meth endpoint params json =
       (Inl (IntValueError v), c, w\<lparr>sent := sent w @ [request_of c meth endpoint params json]\<rparr>)"
      using request_response_not_numeric [OF Inr] by blast
    then have "snd (snd (request c w meth endpoint params json)) =
       w\<lparr>sent := sent w @ [request_of c meth endpoint params json], heap := heap w @ []\<rparr>"
      by simp
    then show ?thesis by blast
  qed
qed

lemma request_sent:
  "sent (snd (snd (request c w meth endpoint params json))) =
     sent w @ [request_of c meth endpoint params json]"
  using request_world [of c w meth endpoint params json] by auto

lemma request_deref:
  "a < length (heap w) \<Longrightarrow> deref (snd (snd (request c w meth endpoint params json))) a = deref w a"
  using request_world [of c w meth endpoint params json]
  by (auto simp: deref_def nth_append)

subsection \<open>Evaluation on given inputs\<close>

text \<open>The equations that evaluate header lookups and \<^verbatim>\<open>int()\<close> on given texts.\<close>

lemmas header_eval = header_int_def numeric_or_absent_def rate_limit_headers_numeric_def
  spec_field_def spec_rate_limit_info_def lower_def py_lower_char_def char_of_def bit_Suc_0_iff
  py_int_str_def py_isspace_def is_digit_def digit_val_def int_max_str_digits_def

text \<open>The equations that run \<^verbatim>\<open>_request\<close> on the mock server.\<close>

lemmas request_eval = request_def session_request_def extract_rate_limit_info_def alloc_def
  mk_PassBiError_def py_or_def dict_get_def dflt_def ok_def
  mock_world_def mock_server_def mock_response_def mock_client_def

section \<open>The properties\<close>

subsection \<open>Claim C1\<close>

text \<open>
  Claim C1, as the code has it. For every response with a failing status (400 to 599)
  whose body parses as a JSON object and whose rate-limit headers are each absent or
  numeric, \<^verbatim>\<open>_request\<close> raises a \<^verbatim>\<open>PassBiError\<close> whose status code is the response's
  status, whose message is the body's \<^verbatim>\<open>message\<close> field if that is present and true,
  else the body's \<^verbatim>\<open>error\<close> field if that is present and true, else
  \<^verbatim>\<open>'API request failed'\<close>, whose error code is the body's \<^verbatim>\<open>error\<close> field (\<^verbatim>\<open>None\<close> when
  there is none), and whose details are the parsed body.
\<close>

theorem request_failing_status:
  "transport w (sent w) (request_of c meth endpoint params json) = Inr response \<Longrightarrow>
   \<not> ok response \<Longrightarrow>
   resp_body response = Json (PDict d) \<Longrightarrow>
   rate_limit_headers_numeric (resp_headers response) \<Longrightarrow>
   fst (request c w meth endpoint params json) =
     Inl (ApiError
       \<lparr>message = (if truthy (dict_get d ''message'') then dict_get d ''message''
                   else if truthy (dict_get d ''error'') then dict_get d ''error''
                   else PStr ''API request failed''),
        status_code = resp_status_code response,
        error_code = dict_get d ''error'',
        details = PDict d\<rparr>)"
  using request_not_ok [of w c meth endpoint params json response d]
  by (simp add: py_or_def)

text \<open>A witness for claim C1, the scenario of the specification: the server answers
  \<^verbatim>\<open>search_routes('invalid', 'invalid')\<close> with status 400 and the body
  \<^verbatim>\<open>{"error": "bad_request", "message": "invalid coordinates"}\<close>.\<close>

theorem request_failing_status_witness:
  "\<not> ok \<lparr>resp_status_code = 400, resp_headers = [],
          resp_body = Json (PDict [(''error'', PStr ''bad_request''),
                                   (''message'', PStr ''invalid coordinates'')])\<rparr>
   \<and> rate_limit_headers_numeric []
   \<and> fst (search_routes mock_client
        (mock_world (mock_response 400 []
           (Json (PDict [(''error'', PStr ''bad_request''),
                         (''message'', PStr ''invalid coordinates'')]))))
        ''invalid'' ''invalid'') =
       Inl (ApiError \<lparr>message = PStr ''invalid coordinates'', status_code = 400,
                      error_code = PStr ''bad_request'',
                      details = PDict [(''error'', PStr ''bad_request''),
                                       (''message'', PStr ''invalid coordinates'')]\<rparr>)"
proof -
  let ?d = "[(''error'', PStr ''bad_request''), (''message'', PStr ''invalid coordinates'')]"
  let ?r = "\<lparr>resp_status_code = 400, resp_headers = [], resp_body = Json (PDict ?d)\<rparr>"
  let ?w = "mock_world (Inr ?r)"
  let ?p = "Some (PDict [(''from'', PStr ''invalid''), (''to'', PStr ''invalid'')])"
  have t: "transport ?w (sent ?w) (request_of mock_client ''GET'' ''/v2/route-search'' ?p None)
      = Inr ?r"
    by (simp add: mock_world_def mock_server_def)
  have k: "\<not> ok ?r"
    by (simp add: ok_def)
  have b: "resp_body ?r = Json (PDict ?d)"
    by simp
  have h: "rate_limit_headers_numeric (resp_headers ?r)"
    by (simp add: header_eval)
  show ?thesis
    using k h request_failing_status [OF t k b h]
    by (simp add: search_routes_def mock_response_def dict_get_def)
qed

text \<open>
  Claim C1 as stated fails on a body whose \<^verbatim>\<open>message\<close> field is present but empty: for
  status 400 with the body \<^verbatim>\<open>{"message": "", "error": "bad_request"}\<close> the message of the
  error is the \<^verbatim>\<open>error\<close> field, not the \<^verbatim>\<open>message\<close> field.
\<close>

theorem falsy_message_is_skipped:
  "map_of [(''message'', PStr []), (''error'', PStr ''bad_request'')] ''message'' = Some (PStr [])
   \<and> fst (request mock_client
        (mock_world (mock_response 400 []
           (Json (PDict [(''message'', PStr []), (''error'', PStr ''bad_request'')]))))
        ''GET'' ''/v2/route-search''
        (Some (PDict [(''from'', PStr ''invalid''), (''to'', PStr ''invalid'')])) None) =
       Inl (ApiError \<lparr>message = PStr ''bad_request'', status_code = 400,
                      error_code = PStr ''bad_request'',
                      details = PDict [(''message'', PStr []), (''error'', PStr ''bad_request'')]\<rparr>)"
  by (simp add: request_eval header_eval)

text \<open>
  Two more of the code's departures from claim C1 as stated: a failing response whose
  body parses as a JSON array makes \<^verbatim>\<open>data.get\<close> raise \<^verbatim>\<open>AttributeError\<close>, and one with a
  rate-limit header that is not numeric raises the \<^verbatim>\<open>ValueError\<close> of \<^verbatim>\<open>int()\<close> before the
  body is read.
\<close>

lemma array_body_raises_AttributeError:
  "fst (request mock_client (mock_world (mock_response 500 [] (Json (PList []))))
        ''GET'' ''/health'' None None) = Inl AttributeError"
  by (simp add: request_eval header_eval)

lemma bad_header_raises_before_body:
  "fst (request mock_client
        (mock_world (mock_response 429 [(''X-RateLimit-Limit-Second'', ''10/s'')]
           (Json (PDict [(''error'', PStr ''rate_limit_exceeded'')]))))
        ''GET'' ''/health'' None None) = Inl (IntValueError ''10/s'')"
  by (simp add: request_eval header_eval)

subsection \<open>Claim C2\<close>

text \<open>
  Claim C2. When the one call of \<^verbatim>\<open>session.request\<close> raises a timeout, \<^verbatim>\<open>_request\<close>
  raises a \<^verbatim>\<open>PassBiError\<close> with status code 408 and error code \<^verbatim>\<open>'timeout'\<close>; when it
  raises any other \<^verbatim>\<open>RequestException\<close>, \<^verbatim>\<open>_request\<close> raises a \<^verbatim>\<open>PassBiError\<close> with status
  code 0, error code \<^verbatim>\<open>'request_failed'\<close> and the message \<^verbatim>\<open>'Request failed: '\<close> followed
  by the text of the transport error. In both cases exactly one request was sent (no
  retry), and the client is as it was.
\<close>

theorem request_transport_errors:
  "(transport w (sent w) (request_of c meth endpoint params json) = Inl (Timeout txt) \<longrightarrow>
      request c w meth endpoint params json =
        (Inl (ApiError \<lparr>message = PStr ''Request timeout'', status_code = 408,
                        error_code = PStr ''timeout'', details = PNone\<rparr>),
         c, w\<lparr>sent := sent w @ [request_of c meth endpoint params json]\<rparr>))
   \<and> (transport w (sent w) (request_of c meth endpoint params json) = Inl (RequestException txt) \<longrightarrow>
      request c w meth endpoint params json =
        (Inl (ApiError \<lparr>message = PStr (''Request failed: '' @ txt), status_code = 0,
                        error_code = PStr ''request_failed'', details = PNone\<rparr>),
         c, w\<lparr>sent := sent w @ [request_of c meth endpoint params json]\<rparr>))"
  using request_timeout request_transport_failure by blast

theorem request_transport_errors_witness:
  "transport (mock_world (Inl (Timeout ''Read timed out.''))) []
       (request_of mock_client ''GET'' ''/health'' None None) = Inl (Timeout ''Read timed out.'')
   \<and> request mock_client (mock_world (Inl (Timeout ''Read timed out.''))) ''GET'' ''/health'' None None =
       (Inl (ApiError \<lparr>message = PStr ''Request timeout'', status_code = 408,
                       error_code = PStr ''timeout'', details = PNone\<rparr>),
        mock_client,
        (mock_world (Inl (Timeout ''Read timed out.'')))
          \<lparr>sent := [\<lparr>req_method = ''GET'', req_url = ''https://api.passbi.com/health'',
                      req_params = PNone, req_json = PNone, req_timeout = 30\<rparr>]\<rparr>)
   \<and> transport (mock_world (Inl (RequestException ''Connection refused''))) []
       (request_of mock_client ''GET'' ''/health'' None None) = Inl (RequestException ''Connection refused'')
   \<and> request mock_client (mock_world (Inl (RequestException ''Connection refused''))) ''GET'' ''/health'' None None =
       (Inl (ApiError \<lparr>message = PStr ''Request failed: Connection refused'', status_code = 0,
                       error_code = PStr ''request_failed'', details = PNone\<rparr>),
        mock_client,
        (mock_world (Inl (RequestException ''Connection refused'')))
          \<lparr>sent := [\<lparr>req_method = ''GET'', req_url = ''https://api.passbi.com/health'',
                      req_params = PNone, req_json = PNone, req_timeout = 30\<rparr>]\<rparr>)"
  using request_transport_errors [of "mock_world (Inl (Timeout ''Read timed out.''))" mock_client
          "''GET''" "''/health''" None None "''Read timed out.''"]
        request_transport_errors [of "mock_world (Inl (RequestException ''Connection refused''))"
          mock_client "''GET''" "''/health''" None None "''Connection refused''"]
  by (simp add: mock_world_def mock_server_def mock_client_def request_of_def dflt_def)

subsection \<open>Claim C3\<close>

text \<open>
  Claim C3, as the code has it. When each of the six \<^verbatim>\<open>X-RateLimit-*\<close> headers is absent
  or has a text \<^verbatim>\<open>int()\<close> accepts, \<^verbatim>\<open>_extract_rate_limit_info\<close> binds the tracker to a new
  dict whose six fields are, each on its own, the integer value of its header when the
  header is present and 0 when it is absent. When one of the six headers is present with
  a text \<^verbatim>\<open>int()\<close> refuses, the call raises the \<^verbatim>\<open>ValueError\<close> of \<^verbatim>\<open>int()\<close> and the tracker
  stays as it was.
\<close>

theorem extract_rate_limit_info_fields:
  "(rate_limit_headers_numeric headers \<longrightarrow>
      extract_rate_limit_info c w headers =
        (Inr (), c\<lparr>rate_limit_info := length (heap w)\<rparr>,
         w\<lparr>heap := heap w @ [spec_rate_limit_info headers]\<rparr>))
   \<and> (\<not> rate_limit_headers_numeric headers \<longrightarrow>
      (\<exists>v. extract_rate_limit_info c w headers = (Inl (IntValueError v), c, w)))"
  using extract_numeric extract_not_numeric by blast

theorem extract_rate_limit_info_fields_witness:
  "rate_limit_headers_numeric
     [(''x-ratelimit-limit-second'', ''10''), (''X-RateLimit-Remaining-Day'', ''9_950'')]
   \<and> extract_rate_limit_info mock_client (mock_world (Inl (Timeout [])))
       [(''x-ratelimit-limit-second'', ''10''), (''X-RateLimit-Remaining-Day'', ''9_950'')] =
     (Inr (), mock_client\<lparr>rate_limit_info := 1\<rparr>,
      (mock_world (Inl (Timeout [])))
        \<lparr>heap := [[], [(''limit_second'', 10), (''remaining_second'', 0), (''limit_day'', 0),
                      (''remaining_day'', 9950), (''limit_month'', 0), (''remaining_month'', 0)]]\<rparr>)
   \<and> \<not> rate_limit_headers_numeric [(''X-RateLimit-Limit-Month'', ''1e6'')]
   \<and> extract_rate_limit_info mock_client (mock_world (Inl (Timeout [])))
       [(''X-RateLimit-Limit-Month'', ''1e6'')] =
     (Inl (IntValueError ''1e6''), mock_client, mock_world (Inl (Timeout [])))"
proof -
  let ?hs = "[(''x-ratelimit-limit-second'', ''10''), (''X-RateLimit-Remaining-Day'', ''9_950'')]"
  let ?bad = "[(''X-RateLimit-Limit-Month'', ''1e6'')]"
  have h: "rate_limit_headers_numeric ?hs"
    by (simp add: header_eval)
  have v: "spec_rate_limit_info ?hs =
     [(''limit_second'', 10), (''remaining_second'', 0), (''limit_day'', 0),
      (''remaining_day'', 9950), (''limit_month'', 0), (''remaining_month'', 0)]"
    by (simp add: header_eval)
  have n: "\<not> rate_limit_headers_numeric ?bad"
    by (simp add: header_eval)
  have e: "extract_rate_limit_info mock_client (mock_world (Inl (Timeout []))) ?bad =
      (Inl (IntValueError ''1e6''), mock_client, mock_world (Inl (Timeout [])))"
    using n extract_rate_limit_info_fields [of ?bad mock_client "mock_world (Inl (Timeout []))"]
    by (simp add: extract_rate_limit_info_def header_eval)
  show ?thesis
    using h v n e extract_rate_limit_info_fields [of ?hs mock_client "mock_world (Inl (Timeout []))"]
    by (simp add: mock_world_def)
qed

text \<open>
  Claim C3 as stated fails on a header that is not numeric: with
  \<^verbatim>\<open>X-RateLimit-Limit-Second: abc\<close> and \<^verbatim>\<open>X-RateLimit-Remaining-Second: 5\<close> the call raises,
  and the tracker is still the dict it was, not one with \<^verbatim>\<open>limit_second\<close> 0 and
  \<^verbatim>\<open>remaining_second\<close> 5.
\<close>

theorem extract_rate_limit_info_non_numeric:
  "extract_rate_limit_info mock_client (mock_world (Inl (Timeout [])))
       [(''X-RateLimit-Limit-Second'', ''abc''), (''X-RateLimit-Remaining-Second'', ''5'')] =
     (Inl (IntValueError ''abc''), mock_client, mock_world (Inl (Timeout [])))
   \<and> spec_rate_limit_info
       [(''X-RateLimit-Limit-Second'', ''abc''), (''X-RateLimit-Remaining-Second'', ''5'')] =
     [(''limit_second'', 0), (''remaining_second'', 5), (''limit_day'', 0),
      (''remaining_day'', 0), (''limit_month'', 0), (''remaining_month'', 0)]
   \<and> deref (mock_world (Inl (Timeout []))) (get_rate_limit_info mock_client) = Some []"
  by (simp add: extract_rate_limit_info_def header_eval deref_def get_rate_limit_info_def
        mock_world_def mock_client_def)

subsection \<open>Claim C4\<close>

text \<open>
  Claim C4. For every API key string, the constructor raises \<^verbatim>\<open>ValueError\<close> (the
  validation error of this client) when the key is empty or does not start with
  \<^verbatim>\<open>pk_\<close>, leaving the world as it was, so nothing was sent; for every key that starts
  with \<^verbatim>\<open>pk_\<close> it returns a client holding that key, and the only change to the world
  is the new, empty rate-limit dict.
\<close>

theorem init_validates_api_key:
  "(key = [] \<or> \<not> startswith key ''pk_'' \<longrightarrow>
      (\<exists>msg. init w key url tmo dbg = (Inl (ValueError msg), w)))
   \<and> (startswith key ''pk_'' \<longrightarrow>
      (\<exists>c. init w key url tmo dbg = (Inr c, w\<lparr>heap := heap w @ [[]]\<rparr>) \<and> api_key c = key))"
  by (auto simp: init_def alloc_def startswith_def)

theorem init_validates_api_key_witness:
  "init ((mock_world (Inl (Timeout [])))\<lparr>heap := []\<rparr>) [] None None None
     = (Inl (ValueError ''API key is required''), (mock_world (Inl (Timeout [])))\<lparr>heap := []\<rparr>)
   \<and> \<not> startswith ''sk_live_abc123'' ''pk_''
   \<and> init ((mock_world (Inl (Timeout [])))\<lparr>heap := []\<rparr>) ''sk_live_abc123'' None None None
       = (Inl (ValueError (''Invalid API key format. API key must start with ''
                            @ [CHR 0x22] @ ''pk_'' @ [CHR 0x22])),
          (mock_world (Inl (Timeout [])))\<lparr>heap := []\<rparr>)
   \<and> startswith ''pk_live_abc123'' ''pk_''
   \<and> init ((mock_world (Inl (Timeout [])))\<lparr>heap := []\<rparr>) ''pk_live_abc123'' None None None
       = (Inr mock_client, mock_world (Inl (Timeout [])))"
  using init_validates_api_key [of "[]" "(mock_world (Inl (Timeout [])))\<lparr>heap := []\<rparr>" None None None]
        init_validates_api_key [of "''sk_live_abc123''" "(mock_world (Inl (Timeout [])))\<lparr>heap := []\<rparr>" None None None]
        init_validates_api_key [of "''pk_live_abc123''" "(mock_world (Inl (Timeout [])))\<lparr>heap := []\<rparr>" None None None]
  by (simp add: init_def alloc_def startswith_def mock_world_def mock_client_def dflt_def rstrip_def)

subsection \<open>Claim C5\<close>

text \<open>
  Claim C5. \<^verbatim>\<open>search_routes\<close> with an empty \<^verbatim>\<open>from_coords\<close> or \<^verbatim>\<open>to_coords\<close>,
  \<^verbatim>\<open>find_nearby_stops\<close> with \<^verbatim>\<open>lat\<close> or \<^verbatim>\<open>lon\<close> being \<^verbatim>\<open>None\<close>, \<^verbatim>\<open>create_api_key\<close> with
  an empty name and \<^verbatim>\<open>revoke_api_key\<close> with an empty key id raise \<^verbatim>\<open>ValueError\<close> (the
  validation error of this client, never a \<^verbatim>\<open>PassBiError\<close>) and leave the client and the
  world as they were: nothing was sent, and the rate-limit snapshot is the same object
  with the same content.
\<close>

theorem local_validation_errors:
  "(from_coords = [] \<or> to_coords = [] \<longrightarrow>
      search_routes c w from_coords to_coords =
        (Inl (ValueError ''Both from_coords and to_coords are required''), c, w))
   \<and> (lat = PNone \<or> lon = PNone \<longrightarrow>
      find_nearby_stops c w lat lon radius =
        (Inl (ValueError ''Both lat and lon are required''), c, w))
   \<and> create_api_key c w [] description scopes expires_at =
        (Inl (ValueError ''API key name is required''), c, w)
   \<and> revoke_api_key c w [] = (Inl (ValueError ''API key ID is required''), c, w)
   \<and> \<not> is_ApiError (ValueError msg) \<and> is_ValueError (ValueError msg)"
  by (simp add: search_routes_def find_nearby_stops_def create_api_key_def revoke_api_key_def)

theorem local_validation_errors_witness:
  "search_routes mock_client (mock_world (Inl (Timeout []))) [] [] =
     (Inl (ValueError ''Both from_coords and to_coords are required''), mock_client,
      mock_world (Inl (Timeout [])))
   \<and> search_routes mock_client (mock_world (Inl (Timeout []))) ''14.7167,-17.4677'' [] =
     (Inl (ValueError ''Both from_coords and to_coords are required''), mock_client,
      mock_world (Inl (Timeout [])))
   \<and> find_nearby_stops mock_client (mock_world (Inl (Timeout []))) PNone
        (PFloat (Finite (- 174467 / 10000))) None =
     (Inl (ValueError ''Both lat and lon are required''), mock_client,
      mock_world (Inl (Timeout [])))
   \<and> sent (mock_world (Inl (Timeout []))) = []"
  using local_validation_errors [of "[]" "[]" mock_client "mock_world (Inl (Timeout []))"]
        local_validation_errors [of "''14.7167,-17.4677''" "[]" mock_client
           "mock_world (Inl (Timeout []))"]
        local_validation_errors [of _ _ mock_client "mock_world (Inl (Timeout []))" PNone
           "PFloat (Finite (- 174467 / 10000))" None]
  by (simp add: mock_world_def)

subsection \<open>Claim C6\<close>

text \<open>
  Claim C6. For every \<^verbatim>\<open>PassBiError\<close> value, \<^verbatim>\<open>is_rate_limit_error()\<close> is true exactly
  when the error code is one of \<^verbatim>\<open>'rate_limit_exceeded'\<close>, \<^verbatim>\<open>'daily_quota_exceeded'\<close>,
  \<^verbatim>\<open>'monthly_quota_exceeded'\<close>, and \<^verbatim>\<open>is_auth_error()\<close> is true exactly when the status
  code is 401 or 403.
\<close>

theorem error_classification:
  "is_rate_limit_error e =
     (error_code e = PStr ''rate_limit_exceeded'' \<or> error_code e = PStr ''daily_quota_exceeded''
      \<or> error_code e = PStr ''monthly_quota_exceeded'')
   \<and> is_auth_error e = (status_code e = 401 \<or> status_code e = 403)"
  by (simp add: is_rate_limit_error_def is_auth_error_def)

subsection \<open>Claim C7\<close>

text \<open>
  Claim C7, as the code has it. The constructor binds \<^verbatim>\<open>rate_limit_info\<close> to a new empty
  dict: for every freshly constructed client, before any request, the snapshot
  \<^verbatim>\<open>get_rate_limit_info\<close> returns is the empty dict, in which none of the six fields is
  present.
\<close>

theorem init_rate_limit_info_empty:
  "init w key url tmo dbg = (Inr c, w') \<Longrightarrow>
     deref w' (get_rate_limit_info c) = Some []"
  by (auto simp: init_def alloc_def deref_def get_rate_limit_info_def split: if_splits)

theorem init_rate_limit_info_empty_witness:
  "init ((mock_world (Inl (Timeout [])))\<lparr>heap := []\<rparr>) ''pk_live_abc123'' None None None
     = (Inr mock_client, mock_world (Inl (Timeout [])))
   \<and> deref (mock_world (Inl (Timeout []))) (get_rate_limit_info mock_client) = Some []"
proof -
  have h: "init ((mock_world (Inl (Timeout [])))\<lparr>heap := []\<rparr>) ''pk_live_abc123'' None None None
     = (Inr mock_client, mock_world (Inl (Timeout [])))"
    by (simp add: init_def alloc_def startswith_def mock_world_def mock_client_def dflt_def
          rstrip_def)
  show ?thesis using h init_rate_limit_info_empty [OF h] by simp
qed

text \<open>
  Claim C7 as stated fails: the snapshot of the client \<^verbatim>\<open>PassBiClient('pk_live_abc123')\<close>,
  taken before any request, is not the all-zero record.
\<close>

theorem init_rate_limit_info_not_zero:
  "init ((mock_world (Inl (Timeout [])))\<lparr>heap := []\<rparr>) ''pk_live_abc123'' None None None
     = (Inr mock_client, mock_world (Inl (Timeout [])))
   \<and> deref (mock_world (Inl (Timeout []))) (get_rate_limit_info mock_client)
       \<noteq> Some zero_rate_limit_info"
  by (simp add: init_def alloc_def startswith_def mock_world_def mock_client_def dflt_def
        rstrip_def deref_def get_rate_limit_info_def zero_rate_limit_info_def)

subsection \<open>Claim C8\<close>

text \<open>
  Claim C8, as the code has it. For every round trip that yields a response in which
  each of the six rate-limit headers is absent or numeric, whatever the status and the
  body, \<^verbatim>\<open>_request\<close> binds the tracker to a new dict with the values of that response's
  headers, and it does so before it looks at the body, so the state an error leaves
  behind has the new tracker. And no request, whatever its outcome, changes a dict that
  existed before it: a snapshot \<^verbatim>\<open>get_rate_limit_info\<close> returned earlier keeps its content.
\<close>

theorem request_replaces_tracker:
  "(transport w (sent w) (request_of c meth endpoint params json) = Inr response
      \<and> rate_limit_headers_numeric (resp_headers response) \<longrightarrow>
      get_rate_limit_info (fst (snd (request c w meth endpoint params json))) = length (heap w)
      \<and> deref (snd (snd (request c w meth endpoint params json))) (length (heap w))
          = Some (spec_rate_limit_info (resp_headers response)))
   \<and> (a < length (heap w) \<longrightarrow>
      deref (snd (snd (request c w meth endpoint params json))) a = deref w a)"
proof (intro conjI impI)
  assume h: "transport w (sent w) (request_of c meth endpoint params json) = Inr response
      \<and> rate_limit_headers_numeric (resp_headers response)"
  then have s: "snd (request c w meth endpoint params json) =
     (c\<lparr>rate_limit_info := length (heap w)\<rparr>,
      w\<lparr>sent := sent w @ [request_of c meth endpoint params json],
        heap := heap w @ [spec_rate_limit_info (resp_headers response)]\<rparr>)"
    using request_state by blast
  show "get_rate_limit_info (fst (snd (request c w meth endpoint params json))) = length (heap w)"
    by (simp add: s get_rate_limit_info_def)
  show "deref (snd (snd (request c w meth endpoint params json))) (length (heap w))
          = Some (spec_rate_limit_info (resp_headers response))"
    by (simp add: s deref_def)
next
  assume "a < length (heap w)"
  then show "deref (snd (snd (request c w meth endpoint params json))) a = deref w a"
    by (rule request_deref)
qed

text \<open>A witness for claim C8: a 429 reply with two rate-limit headers. The error is
  raised, the tracker is the new dict at address 1, and the dict at address 0, which
  \<^verbatim>\<open>get_rate_limit_info\<close> returned before the request, is still empty.\<close>

theorem request_replaces_tracker_witness:
  "rate_limit_headers_numeric
     [(''X-RateLimit-Limit-Second'', ''10''), (''X-RateLimit-Remaining-Second'', ''0'')]
   \<and> get_rate_limit_info mock_client = 0
   \<and> fst (request mock_client
        (mock_world (mock_response 429
           [(''X-RateLimit-Limit-Second'', ''10''), (''X-RateLimit-Remaining-Second'', ''0'')]
           (Json (PDict [(''error'', PStr ''rate_limit_exceeded'')]))))
        ''GET'' ''/health'' None None) =
       Inl (ApiError \<lparr>message = PStr ''rate_limit_exceeded'', status_code = 429,
                      error_code = PStr ''rate_limit_exceeded'',
                      details = PDict [(''error'', PStr ''rate_limit_exceeded'')]\<rparr>)
   \<and> get_rate_limit_info (fst (snd (request mock_client
        (mock_world (mock_response 429
           [(''X-RateLimit-Limit-Second'', ''10''), (''X-RateLimit-Remaining-Second'', ''0'')]
           (Json (PDict [(''error'', PStr ''rate_limit_exceeded'')]))))
        ''GET'' ''/health'' None None))) = 1
   \<and> deref (snd (snd (request mock_client
        (mock_world (mock_response 429
           [(''X-RateLimit-Limit-Second'', ''10''), (''X-RateLimit-Remaining-Second'', ''0'')]
           (Json (PDict [(''error'', PStr ''rate_limit_exceeded'')]))))
        ''GET'' ''/health'' None None))) 1 =
       Some [(''limit_second'', 10), (''remaining_second'', 0), (''limit_day'', 0),
             (''remaining_day'', 0), (''limit_month'', 0), (''remaining_month'', 0)]
   \<and> deref (snd (snd (request mock_client
        (mock_world (mock_response 429
           [(''X-RateLimit-Limit-Second'', ''10''), (''X-RateLimit-Remaining-Second'', ''0'')]
           (Json (PDict [(''error'', PStr ''rate_limit_exceeded'')]))))
        ''GET'' ''/health'' None None))) 0 = Some []"
proof -
  let ?hs = "[(''X-RateLimit-Limit-Second'', ''10''), (''X-RateLimit-Remaining-Second'', ''0'')]"
  let ?r = "\<lparr>resp_status_code = 429, resp_headers = ?hs,
             resp_body = Json (PDict [(''error'', PStr ''rate_limit_exceeded'')])\<rparr>"
  let ?w = "mock_world (Inr ?r)"
  have h: "rate_limit_headers_numeric ?hs"
    by (simp add: header_eval)
  have v: "spec_rate_limit_info ?hs =
     [(''limit_second'', 10), (''remaining_second'', 0), (''limit_day'', 0),
      (''remaining_day'', 0), (''limit_month'', 0), (''remaining_month'', 0)]"
    by (simp add: header_eval)
  have t: "transport ?w (sent ?w) (request_of mock_client ''GET'' ''/health'' None None) = Inr ?r"
    by (simp add: mock_world_def mock_server_def)
  have l: "length (heap ?w) = 1" "deref ?w 0 = Some []"
    by (simp_all add: mock_world_def deref_def)
  have e: "fst (request mock_client ?w ''GET'' ''/health'' None None) =
       Inl (ApiError \<lparr>message = PStr ''rate_limit_exceeded'', status_code = 429,
                      error_code = PStr ''rate_limit_exceeded'',
                      details = PDict [(''error'', PStr ''rate_limit_exceeded'')]\<rparr>)"
    using request_not_ok [OF t, of "[(''error'', PStr ''rate_limit_exceeded'')]"] h
    by (simp add: ok_def py_or_def dict_get_def)
  show ?thesis
    using h v l e t
      request_replaces_tracker [of ?w mock_client "''GET''" "''/health''" None None ?r 0]
    by (simp add: mock_response_def get_rate_limit_info_def mock_client_def)
qed

text \<open>
  Claim C8 as stated fails on a response with a rate-limit header that is not numeric: a
  200 reply with \<^verbatim>\<open>X-RateLimit-Limit-Day: unlimited\<close> and \<^verbatim>\<open>X-RateLimit-Remaining-Day: 42\<close>
  makes \<^verbatim>\<open>_request\<close> raise the \<^verbatim>\<open>ValueError\<close> of \<^verbatim>\<open>int()\<close>, and the tracker is the dict it
  was before, the empty one, not one derived from the headers.
\<close>

theorem request_keeps_tracker_non_numeric:
  "request mock_client
      (mock_world (mock_response 200
         [(''X-RateLimit-Limit-Day'', ''unlimited''), (''X-RateLimit-Remaining-Day'', ''42'')]
         (Json (PDict [(''status'', PStr ''ok'')]))))
      ''GET'' ''/health'' None None =
     (Inl (IntValueError ''unlimited''), mock_client,
      (mock_world (mock_response 200
         [(''X-RateLimit-Limit-Day'', ''unlimited''), (''X-RateLimit-Remaining-Day'', ''42'')]
         (Json (PDict [(''status'', PStr ''ok'')]))))
        \<lparr>sent := [\<lparr>req_method = ''GET'', req_url = ''https://api.passbi.com/health'',
                    req_params = PNone, req_json = PNone, req_timeout = 30\<rparr>]\<rparr>)
   \<and> deref ((mock_world (mock_response 200
         [(''X-RateLimit-Limit-Day'', ''unlimited''), (''X-RateLimit-Remaining-Day'', ''42'')]
         (Json (PDict [(''status'', PStr ''ok'')]))))
        \<lparr>sent := [\<lparr>req_method = ''GET'', req_url = ''https://api.passbi.com/health'',
                    req_params = PNone, req_json = PNone, req_timeout = 30\<rparr>]\<rparr>)
       (get_rate_limit_info mock_client) = Some []"
  by (simp add: request_def session_request_def extract_rate_limit_info_def header_eval
        mock_world_def mock_server_def mock_response_def mock_client_def dflt_def deref_def
        get_rate_limit_info_def)

subsection \<open>Claim C9\<close>

text \<open>
  Claim C9, as the code has it. For every pair of non-empty coordinate strings and every
  response with status 200, a body that parses as JSON and rate-limit headers that are
  each absent or numeric, \<^verbatim>\<open>search_routes\<close> sends exactly one request, a GET to
  \<^verbatim>\<open>/v2/route-search\<close> under the base URL with the query parameters \<^verbatim>\<open>from\<close> and \<^verbatim>\<open>to\<close>,
  and returns the parsed body as it is.
\<close>

theorem search_routes_success:
  "from_coords \<noteq> [] \<Longrightarrow> to_coords \<noteq> [] \<Longrightarrow>
   transport w (sent w)
     \<lparr>req_method = ''GET'', req_url = base_url c @ ''/v2/route-search'',
      req_params = PDict [(''from'', PStr from_coords), (''to'', PStr to_coords)],
      req_json = PNone, req_timeout = timeout c\<rparr> = Inr response \<Longrightarrow>
   resp_status_code response = 200 \<Longrightarrow>
   resp_body response = Json data \<Longrightarrow>
   rate_limit_headers_numeric (resp_headers response) \<Longrightarrow>
   search_routes c w from_coords to_coords =
     (Inr data,
      c\<lparr>rate_limit_info := length (heap w)\<rparr>,
      w\<lparr>sent := sent w @
           [\<lparr>req_method = ''GET'', req_url = base_url c @ ''/v2/route-search'',
             req_params = PDict [(''from'', PStr from_coords), (''to'', PStr to_coords)],
             req_json = PNone, req_timeout = timeout c\<rparr>],
        heap := heap w @ [spec_rate_limit_info (resp_headers response)]\<rparr>)"
proof -
  let ?p = "Some (PDict [(''from'', PStr from_coords), (''to'', PStr to_coords)])"
  assume ne: "from_coords \<noteq> []" "to_coords \<noteq> []"
    and t: "transport w (sent w)
     \<lparr>req_method = ''GET'', req_url = base_url c @ ''/v2/route-search'',
      req_params = PDict [(''from'', PStr from_coords), (''to'', PStr to_coords)],
      req_json = PNone, req_timeout = timeout c\<rparr> = Inr response"
    and s: "resp_status_code response = 200"
    and b: "resp_body response = Json data"
    and h: "rate_limit_headers_numeric (resp_headers response)"
  have r: "request_of c ''GET'' ''/v2/route-search'' ?p None =
     \<lparr>req_method = ''GET'', req_url = base_url c @ ''/v2/route-search'',
      req_params = PDict [(''from'', PStr from_coords), (''to'', PStr to_coords)],
      req_json = PNone, req_timeout = timeout c\<rparr>"
    by (simp add: request_of_def dflt_def)
  have t': "transport w (sent w) (request_of c ''GET'' ''/v2/route-search'' ?p None) = Inr response"
    using t r by simp
  have k: "ok response"
    using s by (simp add: ok_def)
  have "fst (request c w ''GET'' ''/v2/route-search'' ?p None) = Inr data"
    using request_ok [OF t' h k b] .
  moreover have "snd (request c w ''GET'' ''/v2/route-search'' ?p None) =
     (c\<lparr>rate_limit_info := length (heap w)\<rparr>,
      w\<lparr>sent := sent w @ [request_of c ''GET'' ''/v2/route-search'' ?p None],
        heap := heap w @ [spec_rate_limit_info (resp_headers response)]\<rparr>)"
    using request_state [OF t' h] .
  ultimately have "request c w ''GET'' ''/v2/route-search'' ?p None =
     (Inr data, c\<lparr>rate_limit_info := length (heap w)\<rparr>,
      w\<lparr>sent := sent w @ [request_of c ''GET'' ''/v2/route-search'' ?p None],
        heap := heap w @ [spec_rate_limit_info (resp_headers response)]\<rparr>)"
    by (simp add: prod_eq_iff)
  then show ?thesis
    using ne r by (simp add: search_routes_def)
qed

text \<open>A witness for claim C9, the scenario of the specification: the server answers
  \<^verbatim>\<open>GET /v2/route-search?from=14.7167,-17.4677&to=14.6928,-17.4467\<close> with status 200 and
  the body \<^verbatim>\<open>{"routes": {"direct": []}}\<close>.\<close>

theorem search_routes_success_witness:
  "rate_limit_headers_numeric [(''X-RateLimit-Remaining-Day'', ''9999'')]
   \<and> search_routes mock_client
        (mock_world (mock_response 200 [(''X-RateLimit-Remaining-Day'', ''9999'')]
           (Json (PDict [(''routes'', PDict [(''direct'', PList [])])]))))
        ''14.7167,-17.4677'' ''14.6928,-17.4467'' =
     (Inr (PDict [(''routes'', PDict [(''direct'', PList [])])]),
      mock_client\<lparr>rate_limit_info := 1\<rparr>,
      (mock_world (mock_response 200 [(''X-RateLimit-Remaining-Day'', ''9999'')]
           (Json (PDict [(''routes'', PDict [(''direct'', PList [])])]))))
        \<lparr>sent := [\<lparr>req_method = ''GET'',
                    req_url = ''https://api.passbi.com/v2/route-search'',
                    req_params = PDict [(''from'', PStr ''14.7167,-17.4677''),
                                        (''to'', PStr ''14.6928,-17.4467'')],
                    req_json = PNone, req_timeout = 30\<rparr>],
         heap := [[], [(''limit_second'', 0), (''remaining_second'', 0), (''limit_day'', 0),
                       (''remaining_day'', 9999), (''limit_month'', 0),
                       (''remaining_month'', 0)]]\<rparr>)"
proof -
  let ?hs = "[(''X-RateLimit-Remaining-Day'', ''9999'')]"
  let ?data = "PDict [(''routes'', PDict [(''direct'', PList [])])]"
  let ?r = "\<lparr>resp_status_code = 200, resp_headers = ?hs, resp_body = Json ?data\<rparr>"
  let ?w = "mock_world (Inr ?r)"
  have h: "rate_limit_headers_numeric (resp_headers ?r)"
    by (simp add: header_eval)
  have v: "spec_rate_limit_info ?hs =
     [(''limit_second'', 0), (''remaining_second'', 0), (''limit_day'', 0),
      (''remaining_day'', 9999), (''limit_month'', 0), (''remaining_month'', 0)]"
    by (simp add: header_eval)
  have t: "transport ?w (sent ?w)
     \<lparr>req_method = ''GET'', req_url = base_url mock_client @ ''/v2/route-search'',
      req_params = PDict [(''from'', PStr ''14.7167,-17.4677''), (''to'', PStr ''14.6928,-17.4467'')],
      req_json = PNone, req_timeout = timeout mock_client\<rparr> = Inr ?r"
    by (simp add: mock_world_def mock_server_def)
  have "search_routes mock_client ?w ''14.7167,-17.4677'' ''14.6928,-17.4467'' =
     (Inr ?data, mock_client\<lparr>rate_limit_info := length (heap ?w)\<rparr>,
      ?w\<lparr>sent := sent ?w @
           [\<lparr>req_method = ''GET'', req_url = base_url mock_client @ ''/v2/route-search'',
             req_params = PDict [(''from'', PStr ''14.7167,-17.4677''),
                                 (''to'', PStr ''14.6928,-17.4467'')],
             req_json = PNone, req_timeout = timeout mock_client\<rparr>],
        heap := heap ?w @ [spec_rate_limit_info (resp_headers ?r)]\<rparr>)"
    by (rule search_routes_success [OF _ _ t _ _ h]) simp_all
  then show ?thesis
    using h v by (simp add: mock_response_def mock_world_def mock_client_def)
qed

text \<open>
  Claim C9 as stated fails on a 200 response with a rate-limit header that is not
  numeric: with \<^verbatim>\<open>X-RateLimit-Limit-Month: unlimited\<close> beside the body
  \<^verbatim>\<open>{"routes": {"direct": []}}\<close>, \<^verbatim>\<open>search_routes\<close> raises the \<^verbatim>\<open>ValueError\<close> of \<^verbatim>\<open>int()\<close>
  and returns no payload.
\<close>

theorem search_routes_non_numeric_header:
  "fst (search_routes mock_client
        (mock_world (mock_response 200 [(''X-RateLimit-Limit-Month'', ''unlimited'')]
           (Json (PDict [(''routes'', PDict [(''direct'', PList [])])]))))
        ''14.7167,-17.4677'' ''14.6928,-17.4467'') = Inl (IntValueError ''unlimited'')"
  by (simp add: search_routes_def request_eval header_eval)

subsection \<open>Claim C10\<close>

text \<open>
  Claim C10. Every call of \<^verbatim>\<open>list_routes\<close> sends one GET to \<^verbatim>\<open>/v2/routes/list\<close> whose
  query parameters hold \<^verbatim>\<open>limit\<close> (100 when the argument is omitted), then \<^verbatim>\<open>mode\<close>
  exactly when the mode argument is true, then \<^verbatim>\<open>agency\<close> exactly when the agency
  argument is true; so an empty string for either does what omitting it does.
\<close>

theorem list_routes_params:
  "sent (snd (snd (list_routes c w mode agency limit))) =
     sent w @
     [\<lparr>req_method = ''GET'', req_url = base_url c @ ''/v2/routes/list'',
       req_params = PDict ([(''limit'', PInt (case limit of None \<Rightarrow> 100 | Some n \<Rightarrow> n))]
          @ (case mode of None \<Rightarrow> [] | Some m \<Rightarrow> if truthy m then [(''mode'', m)] else [])
          @ (case agency of None \<Rightarrow> [] | Some a \<Rightarrow> if truthy a then [(''agency'', a)] else [])),
       req_json = PNone, req_timeout = timeout c\<rparr>]
   \<and> list_routes c w (Some (PStr [])) agency limit = list_routes c w None agency limit
   \<and> list_routes c w mode (Some (PStr [])) limit = list_routes c w mode None limit"
  by (simp add: list_routes_def request_sent request_of_def dflt_def split: option.splits)

text \<open>A witness for claim C10: \<^verbatim>\<open>list_routes(mode='BUS', limit=10)\<close>, as in the docstring,
  and \<^verbatim>\<open>list_routes(mode='', agency='')\<close>, on a network that times out.\<close>

theorem list_routes_params_witness:
  "sent (snd (snd (list_routes mock_client (mock_world (Inl (Timeout [])))
       (Some (PStr ''BUS'')) None (Some 10)))) =
     [\<lparr>req_method = ''GET'', req_url = ''https://api.passbi.com/v2/routes/list'',
       req_params = PDict [(''limit'', PInt 10), (''mode'', PStr ''BUS'')],
       req_json = PNone, req_timeout = 30\<rparr>]
   \<and> sent (snd (snd (list_routes mock_client (mock_world (Inl (Timeout [])))
       (Some (PStr [])) (Some (PStr [])) None))) =
     [\<lparr>req_method = ''GET'', req_url = ''https://api.passbi.com/v2/routes/list'',
       req_params = PDict [(''limit'', PInt 100)],
       req_json = PNone, req_timeout = 30\<rparr>]"
  using list_routes_params [of mock_client "mock_world (Inl (Timeout []))" "Some (PStr ''BUS'')"
          None "Some 10", THEN conjunct1]
        list_routes_params [of mock_client "mock_world (Inl (Timeout []))" "Some (PStr [])"
          "Some (PStr [])" None, THEN conjunct1]
  by (simp add: mock_world_def mock_client_def)

end
